theory Spec2Isabelle
  imports Main
begin

section \<open>The module \<^verbatim>\<open>sedona.sql.st_predicates\<close>\<close>

text \<open>
  The module binds nine SQL predicate functions for Python. Each one is a \<^verbatim>\<open>def\<close> of the
  two parameters \<^verbatim>\<open>a\<close> and \<^verbatim>\<open>b\<close>, both annotated \<^verbatim>\<open>ColumnOrName\<close>, with the return
  annotation \<^verbatim>\<open>Column\<close>, decorated with \<^verbatim>\<open>validate_argument_types\<close>; its body is the
  single statement \<^verbatim>\<open>return _call_predicate_function("<name>", (a, b))\<close>.

  The decorator \<^verbatim>\<open>validate_argument_types\<close> and the dispatcher \<^verbatim>\<open>call_sedona_function\<close>
  are imported from \<^verbatim>\<open>sedona.sql.dataframe_api\<close>, which is not among the sources at hand.
  Both are therefore parameters of the definitions below:
  \<^item> \<open>'a\<close> is the type of the Python values passed as \<^verbatim>\<open>a\<close> and \<^verbatim>\<open>b\<close>;
  \<^item> \<open>'c\<close> is what the dispatcher returns (a \<^verbatim>\<open>Column\<close>; a dispatcher with effects or
    failures is covered by instantiating \<open>'c\<close> accordingly);
  \<^item> \<open>'w\<close> is what the decorator returns for a function.
\<close>

subsection \<open>Function objects\<close>

text \<open>The two annotations the module uses, both imported names.\<close>

datatype annotation = ColumnOrName | Column

text \<open>
  What a \<^verbatim>\<open>def\<close> statement of this module creates, and what the decorator receives: the
  function's name, its parameters with their annotations, its return annotation, and
  its body as a function of the two parameters. Docstrings are left out.
\<close>

record ('a, 'c) py_function =
  def_name :: string
  def_params :: "(string \<times> annotation) list"
  def_returns :: annotation
  def_body :: "'a \<Rightarrow> 'a \<Rightarrow> 'c"

type_synonym ('a, 'c) dispatcher = "string \<Rightarrow> string \<Rightarrow> 'a \<times> 'a \<Rightarrow> 'c"

type_synonym ('a, 'c, 'w) decorator = "('a, 'c) py_function \<Rightarrow> 'w"

subsection \<open>The export list\<close>

text \<open>The list \<^verbatim>\<open>__all__\<close>, lines 8 to 18, in the order of the source.\<close>

definition all_exports :: "string list" where
  "all_exports =
    [''ST_Contains'',
     ''ST_Crosses'',
     ''ST_Disjoint'',
     ''ST_Equals'',
     ''ST_Intersects'',
     ''ST_OrderingEquals'',
     ''ST_Overlaps'',
     ''ST_Touches'',
     ''ST_Within'']"

subsection \<open>The partial application of the dispatcher\<close>

text \<open>
  Line 21: \<^verbatim>\<open>_call_predicate_function = partial(call_sedona_function, "st_predicates")\<close>.
  The partial application fixes the first positional argument of the dispatcher.
\<close>

definition call_predicate_function :: "('a, 'c) dispatcher \<Rightarrow> string \<Rightarrow> 'a \<times> 'a \<Rightarrow> 'c" where
  "call_predicate_function call_sedona_function = call_sedona_function ''st_predicates''"

subsection \<open>The nine decorated functions\<close>

text \<open>
  A decorated \<^verbatim>\<open>def\<close> binds its name to the decorator applied to the function the
  \<^verbatim>\<open>def\<close> creates. The functions follow in the order of the source.
\<close>

text \<open>Lines 24 to 35.\<close>

definition ST_Contains :: "('a, 'c, 'w) decorator \<Rightarrow> ('a, 'c) dispatcher \<Rightarrow> 'w" where
  "ST_Contains validate_argument_types call_sedona_function =
     validate_argument_types
       \<lparr>def_name = ''ST_Contains'',
        def_params = [(''a'', ColumnOrName), (''b'', ColumnOrName)],
        def_returns = Column,
        def_body = \<lambda>a b. call_predicate_function call_sedona_function ''ST_Contains'' (a, b)\<rparr>"

text \<open>Lines 38 to 49.\<close>

definition ST_Crosses :: "('a, 'c, 'w) decorator \<Rightarrow> ('a, 'c) dispatcher \<Rightarrow> 'w" where
  "ST_Crosses validate_argument_types call_sedona_function =
     validate_argument_types
       \<lparr>def_name = ''ST_Crosses'',
        def_params = [(''a'', ColumnOrName), (''b'', ColumnOrName)],
        def_returns = Column,
        def_body = \<lambda>a b. call_predicate_function call_sedona_function ''ST_Crosses'' (a, b)\<rparr>"

text \<open>Lines 52 to 63.\<close>

definition ST_Disjoint :: "('a, 'c, 'w) decorator \<Rightarrow> ('a, 'c) dispatcher \<Rightarrow> 'w" where
  "ST_Disjoint validate_argument_types call_sedona_function =
     validate_argument_types
       \<lparr>def_name = ''ST_Disjoint'',
        def_params = [(''a'', ColumnOrName), (''b'', ColumnOrName)],
        def_returns = Column,
        def_body = \<lambda>a b. call_predicate_function call_sedona_function ''ST_Disjoint'' (a, b)\<rparr>"

text \<open>Lines 66 to 77.\<close>

definition ST_Equals :: "('a, 'c, 'w) decorator \<Rightarrow> ('a, 'c) dispatcher \<Rightarrow> 'w" where
  "ST_Equals validate_argument_types call_sedona_function =
     validate_argument_types
       \<lparr>def_name = ''ST_Equals'',
        def_params = [(''a'', ColumnOrName), (''b'', ColumnOrName)],
        def_returns = Column,
        def_body = \<lambda>a b. call_predicate_function call_sedona_function ''ST_Equals'' (a, b)\<rparr>"

text \<open>Lines 80 to 91.\<close>

definition ST_Intersects :: "('a, 'c, 'w) decorator \<Rightarrow> ('a, 'c) dispatcher \<Rightarrow> 'w" where
  "ST_Intersects validate_argument_types call_sedona_function =
     validate_argument_types
       \<lparr>def_name = ''ST_Intersects'',
        def_params = [(''a'', ColumnOrName), (''b'', ColumnOrName)],
        def_returns = Column,
        def_body = \<lambda>a b. call_predicate_function call_sedona_function ''ST_Intersects'' (a, b)\<rparr>"

text \<open>Lines 94 to 105.\<close>

definition ST_OrderingEquals :: "('a, 'c, 'w) decorator \<Rightarrow> ('a, 'c) dispatcher \<Rightarrow> 'w" where
  "ST_OrderingEquals validate_argument_types call_sedona_function =
     validate_argument_types
       \<lparr>def_name = ''ST_OrderingEquals'',
        def_params = [(''a'', ColumnOrName), (''b'', ColumnOrName)],
        def_returns = Column,
        def_body = \<lambda>a b. call_predicate_function call_sedona_function ''ST_OrderingEquals'' (a, b)\<rparr>"

text \<open>Lines 108 to 119.\<close>

definition ST_Overlaps :: "('a, 'c, 'w) decorator \<Rightarrow> ('a, 'c) dispatcher \<Rightarrow> 'w" where
  "ST_Overlaps validate_argument_types call_sedona_function =
     validate_argument_types
       \<lparr>def_name = ''ST_Overlaps'',
        def_params = [(''a'', ColumnOrName), (''b'', ColumnOrName)],
        def_returns = Column,
        def_body = \<lambda>a b. call_predicate_function call_sedona_function ''ST_Overlaps'' (a, b)\<rparr>"

text \<open>Lines 122 to 133.\<close>

definition ST_Touches :: "('a, 'c, 'w) decorator \<Rightarrow> ('a, 'c) dispatcher \<Rightarrow> 'w" where
  "ST_Touches validate_argument_types call_sedona_function =
     validate_argument_types
       \<lparr>def_name = ''ST_Touches'',
        def_params = [(''a'', ColumnOrName), (''b'', ColumnOrName)],
        def_returns = Column,
        def_body = \<lambda>a b. call_predicate_function call_sedona_function ''ST_Touches'' (a, b)\<rparr>"

text \<open>Lines 136 to 147.\<close>

definition ST_Within :: "('a, 'c, 'w) decorator \<Rightarrow> ('a, 'c) dispatcher \<Rightarrow> 'w" where
  "ST_Within validate_argument_types call_sedona_function =
     validate_argument_types
       \<lparr>def_name = ''ST_Within'',
        def_params = [(''a'', ColumnOrName), (''b'', ColumnOrName)],
        def_returns = Column,
        def_body = \<lambda>a b. call_predicate_function call_sedona_function ''ST_Within'' (a, b)\<rparr>"

subsection \<open>The names the module binds to functions\<close>

text \<open>
  The \<^verbatim>\<open>def\<close> statements of the module: the name each one binds, paired with the
  decorated function bound to it, in the order of the source. The only other name the
  module binds by itself is the private \<^verbatim>\<open>_call_predicate_function\<close>, by an assignment
  and not by a \<^verbatim>\<open>def\<close>.
\<close>

definition module_functions ::
  "('a, 'c, 'w) decorator \<Rightarrow> ('a, 'c) dispatcher \<Rightarrow> (string \<times> 'w) list" where
  "module_functions validate_argument_types call_sedona_function =
    [(''ST_Contains'', ST_Contains validate_argument_types call_sedona_function),
     (''ST_Crosses'', ST_Crosses validate_argument_types call_sedona_function),
     (''ST_Disjoint'', ST_Disjoint validate_argument_types call_sedona_function),
     (''ST_Equals'', ST_Equals validate_argument_types call_sedona_function),
     (''ST_Intersects'', ST_Intersects validate_argument_types call_sedona_function),
     (''ST_OrderingEquals'', ST_OrderingEquals validate_argument_types call_sedona_function),
     (''ST_Overlaps'', ST_Overlaps validate_argument_types call_sedona_function),
     (''ST_Touches'', ST_Touches validate_argument_types call_sedona_function),
     (''ST_Within'', ST_Within validate_argument_types call_sedona_function)]"

subsection \<open>The decorator as the specification describes it\<close>

datatype py_error = ArgumentTypeError

text \<open>
  Modelled from the spec: the decorator \<^verbatim>\<open>validate_argument_types\<close> of
  \<^verbatim>\<open>sedona.sql.dataframe_api\<close>, which the module imports and the sources at hand do not
  contain. The specification says of it that each function "validates argument types
  and forwards": the decorated function checks every argument against the annotation
  of its parameter and calls the function only when all of them pass; otherwise it
  fails with \<open>ArgumentTypeError\<close>. \<open>has_type t v\<close> is the check of the value \<open>v\<close> against
  the annotation \<open>t\<close>.
\<close>

definition validate_argument_types_model ::
  "(annotation \<Rightarrow> 'a \<Rightarrow> bool) \<Rightarrow> ('a, 'c) py_function \<Rightarrow> 'a \<Rightarrow> 'a \<Rightarrow> py_error + 'c" where
  "validate_argument_types_model has_type f a b =
     (if list_all2 (\<lambda>(x, t) v. has_type t v) (def_params f) [a, b]
      then Inr (def_body f a b)
      else Inl ArgumentTypeError)"

section \<open>The predicate engine behind the dispatcher\<close>

text \<open>
  The module only passes a predicate's name and the two columns on; no code that
  evaluates a predicate is among the sources at hand. This section models that engine
  from the specification: its data model (section 3), topology predicate kernel (4.2),
  vertex-ordering equality check (4.3), predicate dispatch facade (4.4), boundary
  contract (6) and error taxonomy (7). \<open>'g\<close> is the type of geometry values.
\<close>

text \<open>
  Modelled from the spec: the nine predicates of the engine, "a closed tagged-variant
  enumeration" of the names Contains, Crosses, Disjoint, Equals, Intersects,
  OrderingEquals, Overlaps, Touches and Within. Eight of them are the "matrix-based
  predicates" of the kernel; Ordering-Equals is the ninth, "which bypasses the matrix".
\<close>

datatype matrix_predicate =
  Contains | Crosses | Disjoint | Equals | Intersects | Overlaps | Touches | Within

datatype predicate = MatrixBased matrix_predicate | OrderingEquals

text \<open>
  Modelled from the spec: the error taxonomy (7), "\<open>MalformedGeometry\<close> (invalid
  ring/coordinate structure, detected at parse time), \<open>UnsupportedGeometryType\<close>
  (variant not implemented by kernel), \<open>NullGeometryError\<close> (missing operand)".
  Evaluation receives geometries that were parsed before, so it never fails with
  \<open>MalformedGeometry\<close>.
\<close>

datatype engine_error = MalformedGeometry | UnsupportedGeometryType | NullGeometryError

text \<open>
  Modelled from the spec: the intersection matrix (3), "a 3x3 grid of dimension values
  (-1 = empty, 0 = point, 1 = line, 2 = area) recording the dimensionality of
  intersections between {interior, boundary, exterior} of geometry A and of geometry
  B". The entry at row \<open>r\<close> and column \<open>c\<close> belongs to the place \<open>r\<close> of \<open>A\<close> and the place
  \<open>c\<close> of \<open>B\<close>.
\<close>

datatype place = Interior | Boundary | Exterior

type_synonym IntersectionMatrix = "place \<Rightarrow> place \<Rightarrow> int"

text \<open>
  Modelled from the spec: what the specification names and does not fix. \<open>supports\<close>
  tells the variants the kernel implements; \<open>bounding_boxes_disjoint\<close> is the test of
  the fast path; \<open>intersection_matrix\<close> is the matrix computation "via segment
  intersection and point-in-polygon tests"; \<open>matrix_pattern\<close> gives the pattern test of
  the predicates whose patterns are described in prose only; and
  \<open>same_coordinate_sequences\<close> is the element-by-element comparison of 4.3.
\<close>

record 'g kernel =
  supports :: "'g \<Rightarrow> bool"
  bounding_boxes_disjoint :: "'g \<Rightarrow> 'g \<Rightarrow> bool"
  intersection_matrix :: "'g \<Rightarrow> 'g \<Rightarrow> IntersectionMatrix"
  matrix_pattern :: "matrix_predicate \<Rightarrow> IntersectionMatrix \<Rightarrow> bool"
  same_coordinate_sequences :: "'g \<Rightarrow> 'g \<Rightarrow> bool"

text \<open>
  Modelled from the spec: the pattern of Disjoint (4.2), "all interior/boundary
  intersections empty".
\<close>

definition interiors_boundaries_empty :: "IntersectionMatrix \<Rightarrow> bool" where
  "interiors_boundaries_empty m =
     (m Interior Interior = - 1 \<and> m Interior Boundary = - 1 \<and>
      m Boundary Interior = - 1 \<and> m Boundary Boundary = - 1)"

text \<open>
  Modelled from the spec: the topology predicate kernel (4.2). An operand of a variant
  the kernel does not support fails with \<open>UnsupportedGeometryType\<close>. Disjoint and
  Intersects take the fast path on disjoint bounding boxes ("short-circuit to
  Disjoint=true / Intersects=false without full matrix computation"), and Contains and
  Within "must fall through"; Intersects is the "logical negation of Disjoint"; Within
  is the "inverse of Contains (B contains A)".
\<close>

definition topology_kernel ::
  "'g kernel \<Rightarrow> matrix_predicate \<Rightarrow> 'g \<Rightarrow> 'g \<Rightarrow> engine_error + bool" where
  "topology_kernel K p a b =
     (if supports K a \<and> supports K b then
        Inr (case p of
            Contains \<Rightarrow> matrix_pattern K Contains (intersection_matrix K a b)
          | Within \<Rightarrow> matrix_pattern K Contains (intersection_matrix K b a)
          | Disjoint \<Rightarrow>
              (if bounding_boxes_disjoint K a b then True
               else interiors_boundaries_empty (intersection_matrix K a b))
          | Intersects \<Rightarrow>
              (if bounding_boxes_disjoint K a b then False
               else \<not> interiors_boundaries_empty (intersection_matrix K a b))
          | Touches \<Rightarrow> matrix_pattern K Touches (intersection_matrix K a b)
          | Crosses \<Rightarrow> matrix_pattern K Crosses (intersection_matrix K a b)
          | Overlaps \<Rightarrow> matrix_pattern K Overlaps (intersection_matrix K a b)
          | Equals \<Rightarrow> matrix_pattern K Equals (intersection_matrix K a b))
      else Inl UnsupportedGeometryType)"

text \<open>
  Modelled from the spec: the predicate dispatch facade (4.4), which "resolves to the
  matrix pattern or direct check in 4.2/4.3, invokes it, and returns a boolean".
  Ordering-Equals "bypasses the matrix and does direct coordinate-sequence comparison".
\<close>

definition predicate_dispatch :: "'g kernel \<Rightarrow> predicate \<Rightarrow> 'g \<Rightarrow> 'g \<Rightarrow> engine_error + bool" where
  "predicate_dispatch K p a b =
     (case p of
        MatrixBased q \<Rightarrow> topology_kernel K q a b
      | OrderingEquals \<Rightarrow> Inr (same_coordinate_sequences K a b))"

text \<open>
  Modelled from the spec: the boundary contract (6). An operand is a geometry or null
  (\<open>None\<close>); "null geometry input yields a defined \<open>NullGeometryError\<close> surfaced to the
  caller rather than a false result".
\<close>

definition evaluate_predicate ::
  "'g kernel \<Rightarrow> predicate \<Rightarrow> 'g option \<Rightarrow> 'g option \<Rightarrow> engine_error + bool" where
  "evaluate_predicate K p a b =
     (case a of
        None \<Rightarrow> Inl NullGeometryError
      | Some x \<Rightarrow>
          (case b of
             None \<Rightarrow> Inl NullGeometryError
           | Some y \<Rightarrow> predicate_dispatch K p x y))"

text \<open>
  Modelled from the spec: the predicates in the order of the named entry points (6),
  "Contains, Crosses, Disjoint, Equals, Intersects, OrderingEquals, Overlaps, Touches,
  Within", and the name of each.
\<close>

definition all_predicates :: "predicate list" where
  "all_predicates =
    [MatrixBased Contains, MatrixBased Crosses, MatrixBased Disjoint, MatrixBased Equals,
     MatrixBased Intersects, OrderingEquals, MatrixBased Overlaps, MatrixBased Touches,
     MatrixBased Within]"

definition predicate_name :: "predicate \<Rightarrow> string" where
  "predicate_name p =
     (case p of
        OrderingEquals \<Rightarrow> ''OrderingEquals''
      | MatrixBased q \<Rightarrow>
          (case q of
             Contains \<Rightarrow> ''Contains''
           | Crosses \<Rightarrow> ''Crosses''
           | Disjoint \<Rightarrow> ''Disjoint''
           | Equals \<Rightarrow> ''Equals''
           | Intersects \<Rightarrow> ''Intersects''
           | Overlaps \<Rightarrow> ''Overlaps''
           | Touches \<Rightarrow> ''Touches''
           | Within \<Rightarrow> ''Within''))"

text \<open>
  Modelled from the spec: an operand at the boundary (6), one of "two column values,
  each either a pre-parsed geometry or a column name to be resolved to a geometry value
  at evaluation time". A row gives a column name its geometry, or null (\<open>None\<close>).
\<close>

datatype 'g operand = PreParsed 'g | ColumnName string

definition resolve :: "(string \<Rightarrow> 'g option) \<Rightarrow> 'g operand \<Rightarrow> 'g option" where
  "resolve row x = (case x of PreParsed g \<Rightarrow> Some g | ColumnName n \<Rightarrow> row n)"

text \<open>
  Modelled from the spec: the dispatcher \<^verbatim>\<open>call_sedona_function\<close> of
  \<^verbatim>\<open>sedona.sql.dataframe_api\<close>, which the module imports and the sources at hand do not
  contain: "a generic call a named SQL function with these columns dispatcher
  belonging to a distributed query engine". The SQL function of a predicate bears the
  predicate's name after the prefix \<^verbatim>\<open>ST_\<close>. Called with that name and two operands, the
  dispatcher returns the column that holds "one boolean column value per row
  (true/false)", the predicate evaluated on the operands as the row resolves them, or
  the failure of that evaluation. The specification says nothing of the dispatcher's
  first argument, which the model does not look at, nor of a name that is no
  predicate's, for which the model returns no column.
\<close>

definition call_sedona_function_model ::
  "'g kernel \<Rightarrow> string \<Rightarrow> string \<Rightarrow> 'g operand \<times> 'g operand \<Rightarrow>
     ((string \<Rightarrow> 'g option) \<Rightarrow> engine_error + bool) option" where
  "call_sedona_function_model K object_name function_name args =
     (case find (\<lambda>p. ''ST_'' @ predicate_name p = function_name) all_predicates of
        None \<Rightarrow> None
      | Some p \<Rightarrow>
          Some (\<lambda>row. evaluate_predicate K p (resolve row (fst args)) (resolve row (snd args))))"

subsection \<open>A kernel to evaluate: segments of the integer line\<close>

text \<open>
  A concrete kernel, the input on which the facade is evaluated below; it is no part
  of the specification. A geometry is a segment \<open>(l, h)\<close> of the integer line with
  \<open>l < h\<close>: its boundary is the two end points, its interior what lies strictly between
  them. The patterns are the usual ones of the nine-intersection model.
\<close>

definition segment_matrix :: "int \<times> int \<Rightarrow> int \<times> int \<Rightarrow> IntersectionMatrix" where
  "segment_matrix A B r c =
     (case (A, B) of ((l1, h1), (l2, h2)) \<Rightarrow>
        (case (r, c) of
           (Interior, Interior) \<Rightarrow> if max l1 l2 < min h1 h2 then 1 else - 1
         | (Interior, Boundary) \<Rightarrow> if (l1 < l2 \<and> l2 < h1) \<or> (l1 < h2 \<and> h2 < h1) then 0 else - 1
         | (Interior, Exterior) \<Rightarrow> if l1 < l2 \<or> h2 < h1 then 1 else - 1
         | (Boundary, Interior) \<Rightarrow> if (l2 < l1 \<and> l1 < h2) \<or> (l2 < h1 \<and> h1 < h2) then 0 else - 1
         | (Boundary, Boundary) \<Rightarrow> if l1 = l2 \<or> l1 = h2 \<or> h1 = l2 \<or> h1 = h2 then 0 else - 1
         | (Boundary, Exterior) \<Rightarrow> if l1 < l2 \<or> h2 < l1 \<or> h1 < l2 \<or> h2 < h1 then 0 else - 1
         | (Exterior, Interior) \<Rightarrow> if l2 < l1 \<or> h1 < h2 then 1 else - 1
         | (Exterior, Boundary) \<Rightarrow> if l2 < l1 \<or> h1 < l2 \<or> h2 < l1 \<or> h1 < h2 then 0 else - 1
         | (Exterior, Exterior) \<Rightarrow> 1))"

definition segment_pattern :: "matrix_predicate \<Rightarrow> IntersectionMatrix \<Rightarrow> bool" where
  "segment_pattern q m =
     (case q of
        Contains \<Rightarrow>
          m Interior Interior \<noteq> - 1 \<and> m Exterior Interior = - 1 \<and> m Exterior Boundary = - 1
      | Within \<Rightarrow>
          m Interior Interior \<noteq> - 1 \<and> m Interior Exterior = - 1 \<and> m Boundary Exterior = - 1
      | Equals \<Rightarrow>
          m Interior Interior \<noteq> - 1 \<and> m Interior Exterior = - 1 \<and> m Boundary Exterior = - 1 \<and>
          m Exterior Interior = - 1 \<and> m Exterior Boundary = - 1
      | Touches \<Rightarrow>
          m Interior Interior = - 1 \<and>
          (m Interior Boundary \<noteq> - 1 \<or> m Boundary Interior \<noteq> - 1 \<or> m Boundary Boundary \<noteq> - 1)
      | Overlaps \<Rightarrow>
          m Interior Interior = 1 \<and> m Interior Exterior \<noteq> - 1 \<and> m Exterior Interior \<noteq> - 1
      | Crosses \<Rightarrow> m Interior Interior = 0
      | Disjoint \<Rightarrow>
          m Interior Interior = - 1 \<and> m Interior Boundary = - 1 \<and>
          m Boundary Interior = - 1 \<and> m Boundary Boundary = - 1
      | Intersects \<Rightarrow>
          \<not> (m Interior Interior = - 1 \<and> m Interior Boundary = - 1 \<and>
             m Boundary Interior = - 1 \<and> m Boundary Boundary = - 1))"

definition segment_kernel :: "(int \<times> int) kernel" where
  "segment_kernel =
     \<lparr>supports = (\<lambda>(l, h). l < h),
      bounding_boxes_disjoint = (\<lambda>(l1, h1) (l2, h2). h1 < l2 \<or> h2 < l1),
      intersection_matrix = segment_matrix,
      matrix_pattern = segment_pattern,
      same_coordinate_sequences = (=)\<rparr>"

section \<open>Properties of the module\<close>

lemmas wrapper_defs =
  ST_Contains_def ST_Crosses_def ST_Disjoint_def ST_Equals_def ST_Intersects_def
  ST_OrderingEquals_def ST_Overlaps_def ST_Touches_def ST_Within_def

subsection \<open>The entry points\<close>

text \<open>Every evaluation ends in true, in false, or in one of two failures.\<close>

lemma evaluate_predicate_results:
  "evaluate_predicate K p x y \<in>
     {Inr True, Inr False, Inl NullGeometryError, Inl UnsupportedGeometryType}"
  by (cases p; cases x; cases y)
     (auto simp: evaluate_predicate_def predicate_dispatch_def topology_kernel_def)

text \<open>
  Claim C1. The module exposes exactly nine entry points, the predicate names
  Contains, Crosses, Disjoint, Equals, Intersects, OrderingEquals, Overlaps, Touches
  and Within with the prefix \<^verbatim>\<open>ST_\<close>; each exported name is bound to a function; the
  function bound is the decorator applied to the function the \<^verbatim>\<open>def\<close> creates; and
  every one of those has exactly the two parameters \<^verbatim>\<open>a\<close> and \<^verbatim>\<open>b\<close>, both annotated
  \<^verbatim>\<open>ColumnOrName\<close>, has the return annotation \<^verbatim>\<open>Column\<close>, and returns the one value the
  dispatcher returns. (\<open>\<lambda>f. f\<close> is the decorator that returns the function unchanged.)
  The exported names are the names of the engine's nine predicates, in the same order.
  With the dispatcher as the specification describes it, the function named after the
  predicate \<open>p\<close> returns one column, and a column of booleans: in every row it holds
  the value of \<open>p\<close> on the two operands as the row resolves them, which is true, false,
  or the failure of the evaluation.
\<close>

theorem nine_entry_points_of_two_columns:
  "all_exports = map ((@) ''ST_'')
      [''Contains'', ''Crosses'', ''Disjoint'', ''Equals'', ''Intersects'', ''OrderingEquals'',
       ''Overlaps'', ''Touches'', ''Within'']
   \<and> length all_exports = 9
   \<and> distinct all_exports
   \<and> map fst (module_functions d csf) = all_exports
   \<and> map snd (module_functions d csf) = map d (map snd (module_functions (\<lambda>f. f) csf))
   \<and> list_all (\<lambda>(n, f).
         def_params f = [(''a'', ColumnOrName), (''b'', ColumnOrName)]
         \<and> def_returns f = Column
         \<and> (\<forall>a b. def_body f a b = csf ''st_predicates'' n (a, b)))
       (module_functions (\<lambda>f. f) csf)
   \<and> all_exports = map (\<lambda>p. ''ST_'' @ predicate_name p) all_predicates
   \<and> map (\<lambda>(n, f). (n, map_option (\<lambda>column. column row) (def_body f a b)))
         (module_functions (\<lambda>f. f) (call_sedona_function_model K)) =
       map (\<lambda>p. (''ST_'' @ predicate_name p,
                  Some (evaluate_predicate K p (resolve row a) (resolve row b)))) all_predicates
   \<and> list_all (\<lambda>(n, f). \<exists>column. def_body f a b = Some column
         \<and> (\<forall>row. column row \<in>
               {Inr True, Inr False, Inl NullGeometryError, Inl UnsupportedGeometryType}))
       (module_functions (\<lambda>f. f) (call_sedona_function_model K))"
proof -
  have code:
    "all_exports = map ((@) ''ST_'')
      [''Contains'', ''Crosses'', ''Disjoint'', ''Equals'', ''Intersects'', ''OrderingEquals'',
       ''Overlaps'', ''Touches'', ''Within'']
     \<and> length all_exports = 9
     \<and> distinct all_exports
     \<and> map fst (module_functions d csf) = all_exports
     \<and> map snd (module_functions d csf) = map d (map snd (module_functions (\<lambda>f. f) csf))
     \<and> list_all (\<lambda>(n, f).
         def_params f = [(''a'', ColumnOrName), (''b'', ColumnOrName)]
         \<and> def_returns f = Column
         \<and> (\<forall>a b. def_body f a b = csf ''st_predicates'' n (a, b)))
       (module_functions (\<lambda>f. f) csf)"
    by (simp add: all_exports_def module_functions_def wrapper_defs call_predicate_function_def)
  have names: "all_exports = map (\<lambda>p. ''ST_'' @ predicate_name p) all_predicates"
    by (simp add: all_exports_def all_predicates_def predicate_name_def)
  have rows:
    "map (\<lambda>(n, f). (n, map_option (\<lambda>column. column row) (def_body f a b)))
         (module_functions (\<lambda>f. f) (call_sedona_function_model K)) =
       map (\<lambda>p. (''ST_'' @ predicate_name p,
                  Some (evaluate_predicate K p (resolve row a) (resolve row b)))) all_predicates"
    by (simp add: module_functions_def wrapper_defs call_predicate_function_def
        call_sedona_function_model_def all_predicates_def predicate_name_def)
  have booleans:
    "list_all (\<lambda>(n, f). \<exists>column. def_body f a b = Some column
         \<and> (\<forall>row. column row \<in>
               {Inr True, Inr False, Inl NullGeometryError, Inl UnsupportedGeometryType}))
       (module_functions (\<lambda>f. f) (call_sedona_function_model K))"
    using evaluate_predicate_results [of K]
    by (simp add: module_functions_def wrapper_defs call_predicate_function_def
        call_sedona_function_model_def all_predicates_def predicate_name_def)
  from code names rows booleans show ?thesis by blast
qed

text \<open>
  The nine functions on the column \<^verbatim>\<open>geom\<close> and the segment \<open>(2, 6)\<close>, in a row where
  \<^verbatim>\<open>geom\<close> is the segment \<open>(0, 10)\<close> and in a row where it is null.
\<close>

theorem nine_entry_points_of_two_columns_witness:
  "map (\<lambda>(n, f). (n, map_option (\<lambda>column. column (\<lambda>c. if c = ''geom'' then Some (0, 10) else None))
                        (def_body f (ColumnName ''geom'') (PreParsed (2, 6)))))
       (module_functions (\<lambda>f. f) (call_sedona_function_model segment_kernel)) =
     [(''ST_Contains'', Some (Inr True)),
      (''ST_Crosses'', Some (Inr False)),
      (''ST_Disjoint'', Some (Inr False)),
      (''ST_Equals'', Some (Inr False)),
      (''ST_Intersects'', Some (Inr True)),
      (''ST_OrderingEquals'', Some (Inr False)),
      (''ST_Overlaps'', Some (Inr False)),
      (''ST_Touches'', Some (Inr False)),
      (''ST_Within'', Some (Inr False))]
   \<and> map (\<lambda>(n, f). (n, map_option (\<lambda>column. column (\<lambda>c. None))
                        (def_body f (ColumnName ''geom'') (PreParsed (2, 6)))))
       (module_functions (\<lambda>f. f) (call_sedona_function_model segment_kernel)) =
     map (\<lambda>n. (n, Some (Inl NullGeometryError))) all_exports"
proof -
  let ?row = "\<lambda>c. if c = ''geom'' then Some (0 :: int, 10 :: int) else None"
  let ?null = "\<lambda>c :: string. None :: (int \<times> int) option"
  have present:
    "map (\<lambda>(n, f). (n, map_option (\<lambda>column. column ?row)
                        (def_body f (ColumnName ''geom'') (PreParsed (2, 6)))))
         (module_functions (\<lambda>f. f) (call_sedona_function_model segment_kernel)) =
       map (\<lambda>p. (''ST_'' @ predicate_name p,
                  Some (evaluate_predicate segment_kernel p
                    (resolve ?row (ColumnName ''geom'')) (resolve ?row (PreParsed (2, 6))))))
         all_predicates"
    using nine_entry_points_of_two_columns
      [of "\<lambda>f. f" "call_sedona_function_model segment_kernel" ?row "ColumnName ''geom''"
          "PreParsed (2, 6)" segment_kernel]
    by (elim conjE)
  have missing:
    "map (\<lambda>(n, f). (n, map_option (\<lambda>column. column ?null)
                        (def_body f (ColumnName ''geom'') (PreParsed (2, 6)))))
         (module_functions (\<lambda>f. f) (call_sedona_function_model segment_kernel)) =
       map (\<lambda>p. (''ST_'' @ predicate_name p,
                  Some (evaluate_predicate segment_kernel p
                    (resolve ?null (ColumnName ''geom'')) (resolve ?null (PreParsed (2, 6))))))
         all_predicates"
    using nine_entry_points_of_two_columns
      [of "\<lambda>f. f" "call_sedona_function_model segment_kernel" ?null "ColumnName ''geom''"
          "PreParsed (2, 6)" segment_kernel]
    by (elim conjE)
  have at_row:
    "map (\<lambda>p. (''ST_'' @ predicate_name p,
                Some (evaluate_predicate segment_kernel p
                  (resolve ?row (ColumnName ''geom'')) (resolve ?row (PreParsed (2, 6))))))
       all_predicates =
     [(''ST_Contains'', Some (Inr True)),
      (''ST_Crosses'', Some (Inr False)),
      (''ST_Disjoint'', Some (Inr False)),
      (''ST_Equals'', Some (Inr False)),
      (''ST_Intersects'', Some (Inr True)),
      (''ST_OrderingEquals'', Some (Inr False)),
      (''ST_Overlaps'', Some (Inr False)),
      (''ST_Touches'', Some (Inr False)),
      (''ST_Within'', Some (Inr False))]"
    by (simp add: all_predicates_def predicate_name_def resolve_def evaluate_predicate_def
        predicate_dispatch_def topology_kernel_def segment_kernel_def segment_matrix_def
        segment_pattern_def interiors_boundaries_empty_def)
  have nulls:
    "map (\<lambda>p. (''ST_'' @ predicate_name p,
                Some (evaluate_predicate segment_kernel p
                  (resolve ?null (ColumnName ''geom'')) (resolve ?null (PreParsed (2, 6))))))
       all_predicates =
     map (\<lambda>n. (n, Some (Inl NullGeometryError))) all_exports"
    by (simp add: all_predicates_def all_exports_def predicate_name_def resolve_def
        evaluate_predicate_def)
  show ?thesis
    unfolding present missing at_row nulls by simp
qed

subsection \<open>The shape of the functions\<close>

text \<open>
  Claim C2. Every function of the module has the same shape. For every decorator \<open>d\<close>
  and every dispatcher \<open>csf\<close>, the module binds each exported name \<open>n\<close> to \<open>d\<close> applied to
  the function named \<open>n\<close> whose body does nothing but hand \<open>n\<close> and the pair \<open>(a, b)\<close> to
  the partial application of the dispatcher, which is the dispatcher at
  \<^verbatim>\<open>"st_predicates"\<close>. With the decorator as the specification describes it, each function
  checks both arguments first and calls the dispatcher only when both pass: the result
  is the dispatcher's value, or the failure of the check. No result is computed in the
  module itself.
\<close>

theorem every_function_validates_then_forwards:
  "module_functions d csf =
     map (\<lambda>n. (n, d \<lparr>def_name = n,
                      def_params = [(''a'', ColumnOrName), (''b'', ColumnOrName)],
                      def_returns = Column,
                      def_body = \<lambda>a b. call_predicate_function csf n (a, b)\<rparr>)) all_exports
   \<and> call_predicate_function csf = csf ''st_predicates''
   \<and> map (\<lambda>(n, w). (n, w a b)) (module_functions (validate_argument_types_model has_type) csf) =
     map (\<lambda>n. (n, if has_type ColumnOrName a \<and> has_type ColumnOrName b
                   then Inr (csf ''st_predicates'' n (a, b))
                   else Inl ArgumentTypeError)) all_exports"
  by (simp add: module_functions_def all_exports_def wrapper_defs call_predicate_function_def
      validate_argument_types_model_def)

text \<open>
  Python values as \<open>string option\<close>: a column name, or \<open>None\<close>, which is no
  \<^verbatim>\<open>ColumnOrName\<close>. With \<open>None\<close> as the second argument no function calls the
  dispatcher; with two column names every function does.
\<close>

theorem every_function_validates_then_forwards_witness:
  "map (\<lambda>(n, w). (n, w (Some ''x'') None))
       (module_functions (validate_argument_types_model (\<lambda>t v. v \<noteq> None))
          (\<lambda>object_name function_name args. (object_name, function_name, args))) =
     map (\<lambda>n. (n, Inl ArgumentTypeError)) all_exports
   \<and> map (\<lambda>(n, w). (n, w (Some ''x'') (Some ''y'')))
       (module_functions (validate_argument_types_model (\<lambda>t v. v \<noteq> None))
          (\<lambda>object_name function_name args. (object_name, function_name, args))) =
     map (\<lambda>n. (n, Inr (''st_predicates'', n, (Some ''x'', Some ''y'')))) all_exports"
proof -
  let ?csf = "\<lambda>object_name function_name (args :: string option \<times> string option).
    (object_name, function_name, args)"
  let ?has_type = "\<lambda>(t :: annotation) (v :: string option). v \<noteq> None"
  have rejected:
    "map (\<lambda>(n, w). (n, w (Some ''x'') None))
       (module_functions (validate_argument_types_model ?has_type) ?csf) =
     map (\<lambda>n. (n, if ?has_type ColumnOrName (Some ''x'') \<and> ?has_type ColumnOrName None
                   then Inr (?csf ''st_predicates'' n (Some ''x'', None))
                   else Inl ArgumentTypeError)) all_exports"
    by (rule conjunct2 [OF conjunct2, OF every_function_validates_then_forwards
          [of "validate_argument_types_model ?has_type" ?csf "Some ''x''" None ?has_type]])
  have accepted:
    "map (\<lambda>(n, w). (n, w (Some ''x'') (Some ''y'')))
       (module_functions (validate_argument_types_model ?has_type) ?csf) =
     map (\<lambda>n. (n, if ?has_type ColumnOrName (Some ''x'') \<and> ?has_type ColumnOrName (Some ''y'')
                   then Inr (?csf ''st_predicates'' n (Some ''x'', Some ''y''))
                   else Inl ArgumentTypeError)) all_exports"
    by (rule conjunct2 [OF conjunct2, OF every_function_validates_then_forwards
          [of "validate_argument_types_model ?has_type" ?csf "Some ''x''" "Some ''y''" ?has_type]])
  show ?thesis
    unfolding rejected accepted by simp
qed

subsection \<open>What is forwarded\<close>

text \<open>
  Claim C8. Every function forwards its own name as the SQL function name, and the
  module tag \<^verbatim>\<open>"st_predicates"\<close>. A dispatcher that looks at nothing but the two names it
  is called with, \<open>g\<close>, is called by the function named \<open>n\<close> with \<^verbatim>\<open>"st_predicates"\<close> and
  \<open>n\<close>, whatever the arguments \<open>a\<close> and \<open>b\<close> and whatever the decorator.
\<close>

theorem every_function_forwards_its_own_name:
  "module_functions d (\<lambda>object_name function_name args. g object_name function_name) =
     map (\<lambda>n. (n, d \<lparr>def_name = n,
                      def_params = [(''a'', ColumnOrName), (''b'', ColumnOrName)],
                      def_returns = Column,
                      def_body = \<lambda>a b. g ''st_predicates'' n\<rparr>)) all_exports"
  by (simp add: module_functions_def all_exports_def wrapper_defs call_predicate_function_def)

theorem every_function_forwards_its_own_name_witness:
  "map (\<lambda>(n, f). (n, def_body f (1 :: nat) 2))
       (module_functions (\<lambda>f. f) (\<lambda>object_name function_name args.
          (object_name, function_name))) =
     map (\<lambda>n. (n, (''st_predicates'', n))) all_exports"
proof -
  have "module_functions (\<lambda>f. f)
          (\<lambda>object_name function_name (args :: nat \<times> nat). (object_name, function_name)) =
        map (\<lambda>n. (n, \<lparr>def_name = n,
                        def_params = [(''a'', ColumnOrName), (''b'', ColumnOrName)],
                        def_returns = Column,
                        def_body = \<lambda>a b. (''st_predicates'', n)\<rparr>)) all_exports"
    by (rule every_function_forwards_its_own_name)
  then show ?thesis by simp
qed

text \<open>
  Claim C9. Every function forwards its two arguments unchanged and in the order
  received. A dispatcher that looks at nothing but the argument tuple, \<open>h\<close>, is called
  by every function with exactly the pair \<open>(a, b)\<close> of the function's own parameters,
  whatever the decorator.
\<close>

theorem every_function_forwards_its_arguments_unchanged:
  "module_functions d (\<lambda>object_name function_name args. h args) =
     map (\<lambda>n. (n, d \<lparr>def_name = n,
                      def_params = [(''a'', ColumnOrName), (''b'', ColumnOrName)],
                      def_returns = Column,
                      def_body = \<lambda>a b. h (a, b)\<rparr>)) all_exports"
  by (simp add: module_functions_def all_exports_def wrapper_defs call_predicate_function_def)

theorem every_function_forwards_its_arguments_unchanged_witness:
  "map (\<lambda>(n, f). (n, def_body f (1 :: nat) 2))
       (module_functions (\<lambda>f. f) (\<lambda>object_name function_name args. args)) =
     map (\<lambda>n. (n, (1, 2))) all_exports"
proof -
  have "module_functions (\<lambda>f. f)
          (\<lambda>object_name function_name (args :: nat \<times> nat). args) =
        map (\<lambda>n. (n, \<lparr>def_name = n,
                        def_params = [(''a'', ColumnOrName), (''b'', ColumnOrName)],
                        def_returns = Column,
                        def_body = \<lambda>a b. (a, b)\<rparr>)) all_exports"
    by (rule every_function_forwards_its_arguments_unchanged [of _ "\<lambda>args. args"])
  then show ?thesis by simp
qed

subsection \<open>What the module exports\<close>

text \<open>
  Claim C10. The export list \<^verbatim>\<open>__all__\<close> holds exactly the names of the nine functions
  the module defines: the two lists of names agree entry by entry, no name occurs
  twice, there are nine of them, and a name is bound by a \<^verbatim>\<open>def\<close> of the module if and
  only if the export list holds it.
\<close>

theorem all_exports_are_the_defined_functions:
  "all_exports = map fst (module_functions d csf)
   \<and> distinct all_exports
   \<and> length all_exports = 9
   \<and> (\<forall>n. (n \<in> set all_exports) = (map_of (module_functions d csf) n \<noteq> None))"
proof -
  have names: "all_exports = map fst (module_functions d csf)"
    by (simp add: all_exports_def module_functions_def)
  have dist: "distinct all_exports"
    by (simp add: all_exports_def)
  have len: "length all_exports = 9"
    by (simp add: all_exports_def)
  have "(n \<in> set all_exports) = (map_of (module_functions d csf) n \<noteq> None)" for n
    unfolding names by (simp add: map_of_eq_None_iff)
  with names dist len show ?thesis by blast
qed

text \<open>An exported name is bound to a function; an imported name is not.\<close>

theorem all_exports_are_the_defined_functions_witness:
  "map_of (module_functions (\<lambda>f. f) (\<lambda>object_name function_name (args :: nat \<times> nat). args))
     ''ST_Within'' \<noteq> None
   \<and> map_of (module_functions (\<lambda>f. f) (\<lambda>object_name function_name (args :: nat \<times> nat). args))
     ''call_sedona_function'' = None"
proof -
  let ?m = "module_functions (\<lambda>f. f) (\<lambda>object_name function_name (args :: nat \<times> nat). args)"
  have "\<forall>n. (n \<in> set all_exports) = (map_of ?m n \<noteq> None)"
    using all_exports_are_the_defined_functions
      [of "\<lambda>f. f" "\<lambda>object_name function_name (args :: nat \<times> nat). args"]
    by (elim conjE)
  then have "''ST_Within'' \<in> set all_exports \<Longrightarrow> map_of ?m ''ST_Within'' \<noteq> None"
    and "''call_sedona_function'' \<notin> set all_exports \<Longrightarrow> map_of ?m ''call_sedona_function'' = None"
    by blast+
  then show ?thesis
    by (simp add: all_exports_def)
qed

section \<open>Properties of the engine as specified\<close>

text \<open>
  Claim C4. For every kernel and every pair of geometries, the facade's result for
  Intersects is its result for Disjoint with the boolean negated: both fail alike on an
  unsupported operand, and otherwise Intersects returns \<open>r\<close> exactly when Disjoint
  returns \<open>\<not> r\<close>.
\<close>

theorem intersects_is_the_negation_of_disjoint:
  "predicate_dispatch K (MatrixBased Intersects) a b =
     map_sum id Not (predicate_dispatch K (MatrixBased Disjoint) a b)
   \<and> (\<forall>r. (predicate_dispatch K (MatrixBased Intersects) a b = Inr r) =
           (predicate_dispatch K (MatrixBased Disjoint) a b = Inr (\<not> r)))"
  by (auto simp add: predicate_dispatch_def topology_kernel_def)

text \<open>
  The segments \<open>(0, 4)\<close> and \<open>(2, 6)\<close> overlap; \<open>(0, 1)\<close> and \<open>(2, 6)\<close> do not, and take
  the fast path.
\<close>

theorem intersects_is_the_negation_of_disjoint_witness:
  "predicate_dispatch segment_kernel (MatrixBased Intersects) (0, 4) (2, 6) = Inr True
   \<and> predicate_dispatch segment_kernel (MatrixBased Disjoint) (0, 4) (2, 6) = Inr False
   \<and> predicate_dispatch segment_kernel (MatrixBased Intersects) (0, 1) (2, 6) = Inr False
   \<and> predicate_dispatch segment_kernel (MatrixBased Disjoint) (0, 1) (2, 6) = Inr True"
  using intersects_is_the_negation_of_disjoint [of segment_kernel "(0, 4)" "(2, 6)"]
    intersects_is_the_negation_of_disjoint [of segment_kernel "(0, 1)" "(2, 6)"]
  by (simp add: predicate_dispatch_def topology_kernel_def segment_kernel_def segment_matrix_def
      interiors_boundaries_empty_def)

text \<open>
  Claim C5. For every kernel and every pair of geometries, the facade's result for
  Contains on \<open>(a, b)\<close> is its result for Within on \<open>(b, a)\<close>.
\<close>

theorem contains_is_within_with_the_arguments_swapped:
  "predicate_dispatch K (MatrixBased Contains) a b = predicate_dispatch K (MatrixBased Within) b a"
  by (simp add: predicate_dispatch_def topology_kernel_def conj_commute)

text \<open>The segment \<open>(0, 10)\<close> contains \<open>(2, 6)\<close>, and does not lie within it.\<close>

theorem contains_is_within_with_the_arguments_swapped_witness:
  "predicate_dispatch segment_kernel (MatrixBased Contains) (0, 10) (2, 6) = Inr True
   \<and> predicate_dispatch segment_kernel (MatrixBased Within) (2, 6) (0, 10) = Inr True
   \<and> predicate_dispatch segment_kernel (MatrixBased Contains) (2, 6) (0, 10) = Inr False
   \<and> predicate_dispatch segment_kernel (MatrixBased Within) (0, 10) (2, 6) = Inr False"
  using contains_is_within_with_the_arguments_swapped [of segment_kernel "(0, 10)" "(2, 6)"]
    contains_is_within_with_the_arguments_swapped [of segment_kernel "(2, 6)" "(0, 10)"]
  by (simp add: predicate_dispatch_def topology_kernel_def segment_kernel_def segment_matrix_def
      segment_pattern_def)

text \<open>
  Claim C7. For each of the nine predicates, an evaluation with a null operand, first
  or second, yields \<open>NullGeometryError\<close>; in particular it never yields the result
  false.
\<close>

theorem null_operand_yields_NullGeometryError:
  "evaluate_predicate K p None b = Inl NullGeometryError
   \<and> evaluate_predicate K p a None = Inl NullGeometryError
   \<and> evaluate_predicate K p None b \<noteq> Inr False
   \<and> evaluate_predicate K p a None \<noteq> Inr False"
  by (simp add: evaluate_predicate_def split: option.splits)

text \<open>
  The segments \<open>(0, 1)\<close> and \<open>(1, 2)\<close> touch; with either of them missing the
  evaluation fails.
\<close>

theorem null_operand_yields_NullGeometryError_witness:
  "evaluate_predicate segment_kernel (MatrixBased Touches) None (Some (1, 2)) =
     Inl NullGeometryError
   \<and> evaluate_predicate segment_kernel (MatrixBased Touches) (Some (0, 1)) None =
     Inl NullGeometryError
   \<and> evaluate_predicate segment_kernel OrderingEquals None None = Inl NullGeometryError
   \<and> evaluate_predicate segment_kernel (MatrixBased Touches) (Some (0, 1)) (Some (1, 2)) =
     Inr True"
  using null_operand_yields_NullGeometryError
      [of segment_kernel "MatrixBased Touches" "Some (1, 2)" "Some (0, 1)"]
    null_operand_yields_NullGeometryError [of segment_kernel OrderingEquals None None]
  by (simp add: evaluate_predicate_def predicate_dispatch_def topology_kernel_def
      segment_kernel_def segment_matrix_def segment_pattern_def)

end
